theory Spec2Isabelle
  imports Complex_Main "HOL-Library.Log_Nat"
begin

section \<open>JavaScript values the client handles\<close>

text \<open>
  The client (\<^verbatim>\<open>services/api.ts\<close>) and the component
  (\<^verbatim>\<open>components/ImageUploader.tsx\<close>) only ever inspect values built by
  \<^verbatim>\<open>JSON.parse\<close>. Such a value is \<open>null\<close>, a boolean, a number, a string, an array
  or a plain object whose own properties are the listed pairs (distinct keys, prototype
  \<^verbatim>\<open>Object.prototype\<close>). A value that may also be \<^verbatim>\<open>undefined\<close> is an
  \<open>option\<close>, with \<open>None\<close> for \<^verbatim>\<open>undefined\<close>.

  Numbers are IEEE doubles. Inside a parsed value their type is left open (\<open>'n\<close>):
  the code only tests and prints them, and their truthiness and decimal rendering come
  with the platform below. The one place where the code computes with numbers, the
  upload percentage, is modelled with the doubles' own rounding (\<open>binary64\<close> below).
\<close>

datatype 'n json =
    JNull
  | JBool bool
  | JNumber 'n
  | JString string
  | JArray "'n json list"
  | JObject "(string \<times> 'n json) list"

text \<open>Values that the source throws or that the runtime throws on its behalf.\<close>

datatype exn =
    Error string
  | SyntaxError string
  | TypeError

text \<open>
  What the browser supplies and the repository does not define:
  \<^item> \<open>JSON_parse\<close>: \<^verbatim>\<open>JSON.parse\<close>; \<open>Inl m\<close> when it throws a \<^verbatim>\<open>SyntaxError\<close>
    whose message is \<open>m\<close> (the wording is the engine's);
  \<^item> \<open>Number_falsy\<close>: whether a number is \<open>+0\<close>, \<open>-0\<close> or \<open>NaN\<close>;
  \<^item> \<open>Number_toString\<close>: the decimal rendering of a number.
\<close>

record 'n platform =
  JSON_parse :: "string \<Rightarrow> string + 'n json"
  Number_falsy :: "'n \<Rightarrow> bool"
  Number_toString :: "'n \<Rightarrow> string"

text \<open>\<^verbatim>\<open>ToBoolean\<close>, as used by \<^verbatim>\<open>||\<close>, \<^verbatim>\<open>&&\<close> and \<^verbatim>\<open>if\<close>.\<close>

fun ToBoolean :: "'n platform \<Rightarrow> 'n json option \<Rightarrow> bool" where
  "ToBoolean P None = False"
| "ToBoolean P (Some JNull) = False"
| "ToBoolean P (Some (JBool b)) = b"
| "ToBoolean P (Some (JNumber n)) = (\<not> Number_falsy P n)"
| "ToBoolean P (Some (JString s)) = (s \<noteq> [])"
| "ToBoolean P (Some (JArray xs)) = True"
| "ToBoolean P (Some (JObject kvs)) = True"

text \<open>
  \<^verbatim>\<open>ToString\<close>, as applied by \<^verbatim>\<open>new Error(v)\<close> and by the clipboard's
  \<^verbatim>\<open>writeText(v)\<close>; \<open>None\<close> when it throws a \<^verbatim>\<open>TypeError\<close>. An array joins its
  elements with commas, \<open>null\<close> elements rendered empty. A plain object renders as
  \<^verbatim>\<open>[object Object]\<close> unless it has an own property \<^verbatim>\<open>toString\<close>, which after
  \<^verbatim>\<open>JSON.parse\<close> is never callable, so that the conversion to a primitive fails.
\<close>

fun ToString :: "'n platform \<Rightarrow> 'n json \<Rightarrow> string option"
  and Array_join :: "'n platform \<Rightarrow> 'n json list \<Rightarrow> string option" where
  "ToString P JNull = Some ''null''"
| "ToString P (JBool b) = Some (if b then ''true'' else ''false'')"
| "ToString P (JNumber n) = Some (Number_toString P n)"
| "ToString P (JString s) = Some s"
| "ToString P (JArray xs) = Array_join P xs"
| "ToString P (JObject kvs) =
     (if ''toString'' \<in> set (map fst kvs) then None else Some ''[object Object]'')"
| "Array_join P [] = Some []"
| "Array_join P (x # xs) =
     (case (if x = JNull then Some [] else ToString P x) of
        None \<Rightarrow> None
      | Some s \<Rightarrow>
          (if xs = [] then Some s
           else (case Array_join P xs of
                   None \<Rightarrow> None
                 | Some r \<Rightarrow> Some (s @ '','' @ r))))"

text \<open>
  Reading a property \<^verbatim>\<open>v.k\<close>, for the names the source reads (\<^verbatim>\<open>detail\<close>,
  \<^verbatim>\<open>languages\<close>, \<^verbatim>\<open>data\<close>, \<^verbatim>\<open>translated_text\<close>), none of which a built-in
  prototype defines: \<open>null\<close> throws, an object yields its own property or
  \<^verbatim>\<open>undefined\<close>, every other value yields \<^verbatim>\<open>undefined\<close>.
\<close>

fun Get :: "'n json \<Rightarrow> string \<Rightarrow> exn + 'n json option" where
  "Get JNull k = Inl TypeError"
| "Get (JObject kvs) k = Inr (map_of kvs k)"
| "Get v k = Inr None"

text \<open>Optional chaining \<^verbatim>\<open>v?.k\<close>: \<open>null\<close> and \<^verbatim>\<open>undefined\<close> short-circuit.\<close>

fun GetOptional :: "'n json option \<Rightarrow> string \<Rightarrow> 'n json option" where
  "GetOptional None k = None"
| "GetOptional (Some JNull) k = None"
| "GetOptional (Some (JObject kvs)) k = map_of kvs k"
| "GetOptional (Some v) k = None"

text \<open>
  \<^verbatim>\<open>'...' + error\<close> on a caught error object goes through
  \<^verbatim>\<open>Error.prototype.toString\<close>: the name, then the message if there is one.
\<close>

definition Error_toString :: "string \<Rightarrow> string \<Rightarrow> string" where
  "Error_toString nm msg = (if msg = [] then nm else nm @ '': '' @ msg)"

text \<open>Decimal rendering of a non-negative integer, for template literals.\<close>

fun decimal :: "nat \<Rightarrow> string" where
  "decimal n =
     (if n < 10 then [''0123456789'' ! n]
      else decimal (n div 10) @ [''0123456789'' ! (n mod 10)])"

declare decimal.simps [simp del]

text \<open>\<^verbatim>\<open>s.startsWith(p)\<close> and \<^verbatim>\<open>s.indexOf(p)\<close> (\<open>-1\<close> when \<open>p\<close> does not occur).\<close>

definition startsWith :: "string \<Rightarrow> string \<Rightarrow> bool" where
  "startsWith s p = (take (length p) s = p)"

fun indexOf_from :: "nat \<Rightarrow> string \<Rightarrow> string \<Rightarrow> int" where
  "indexOf_from i [] p = (if p = [] then int i else - 1)"
| "indexOf_from i (c # cs) p =
     (if startsWith (c # cs) p then int i else indexOf_from (Suc i) cs p)"

definition indexOf :: "string \<Rightarrow> string \<Rightarrow> int" where
  "indexOf s p = indexOf_from 0 s p"

section \<open>The API service\<close>

subsection \<open>What the transport reports\<close>

text \<open>
  An upload \<^verbatim>\<open>progress\<close> event, and the event that ends an
  \<^verbatim>\<open>XMLHttpRequest\<close>: \<^verbatim>\<open>load\<close> (with the response), \<^verbatim>\<open>error\<close> or
  \<^verbatim>\<open>timeout\<close>. The service never aborts a request.
\<close>

record ProgressEvent =
  lengthComputable :: bool
  loaded :: nat
  total :: nat

record XMLHttpRequest =
  status :: nat
  statusText :: string
  responseText :: string

datatype xhr_end =
    load XMLHttpRequest
  | error_event
  | timeout_event

record transport =
  progress_events :: "ProgressEvent list"
  completion :: xhr_end

record File =
  name :: string
  type :: string

record request =
  http_method :: string
  url :: string
  form_file :: File
  form_target_language :: string
  timeout :: nat

definition API_BASE_URL :: string where
  "API_BASE_URL = ''http://127.0.0.1:8000''"

subsection \<open>\<^verbatim>\<open>translateImage\<close>\<close>

text \<open>
  Arithmetic on numbers rounds every result to the nearest double, ties to the even
  significand. \<open>exponent x\<close> is the \<open>e\<close> with \<open>2^e \<le> x < 2^(e+1)\<close> for \<open>x > 0\<close>;
  \<open>binary64 x\<close> scales \<open>x\<close> to a 53-bit significand, rounds it and scales back. The
  exponent is not bounded here: the values the service computes with are byte counts
  below \<open>2^64\<close>, their quotient and a hundred times that, all far inside the range of
  normal doubles, where neither overflow nor gradual underflow occurs.
\<close>

definition round_half_even :: "rat \<Rightarrow> int" where
  "round_half_even s =
     (let f = \<lfloor>s\<rfloor>; r = s - of_int f
      in if r < 1 / 2 then f else if 1 / 2 < r then f + 1 else if even f then f else f + 1)"

definition exponent :: "rat \<Rightarrow> int" where
  "exponent x =
     (case quotient_of x of
        (p, q) \<Rightarrow> (let e = bitlen p - bitlen q in if 2 powi e \<le> x then e else e - 1))"

definition binary64 :: "rat \<Rightarrow> rat" where
  "binary64 x =
     (if x = 0 then 0
      else (let e = exponent \<bar>x\<bar> - 52
            in sgn x * of_int (round_half_even (\<bar>x\<bar> / 2 powi e)) * 2 powi e))"

text \<open>
  \<^verbatim>\<open>Math.round\<close> rounds to the nearest integer, ties towards \<open>+\<infinity>\<close>. The value
  passed to \<^verbatim>\<open>onProgress\<close> is an integer, or \<open>NaN\<close> / \<open>Infinity\<close> when the event
  reports a total of zero (\<open>0/0\<close> and \<open>x/0\<close> for \<open>x > 0\<close>).
\<close>

datatype percentage = Finite int | NaN | Infinity

definition Math_round :: "rat \<Rightarrow> int" where
  "Math_round x = \<lfloor>x + 1 / 2\<rfloor>"

text \<open>
  \<^verbatim>\<open>Math.round((event.loaded / event.total) * 100)\<close> for \<open>total = T > 0\<close> and
  \<open>loaded = l\<close>: both counts become doubles, and the division and the
  multiplication each round their result.
\<close>

definition percent :: "nat \<Rightarrow> nat \<Rightarrow> int" where
  "percent T l =
     Math_round (binary64 (binary64 (binary64 (of_nat l) / binary64 (of_nat T)) * 100))"

definition progress_value :: "ProgressEvent \<Rightarrow> percentage" where
  "progress_value event =
     (if total event = 0 then (if loaded event = 0 then NaN else Infinity)
      else Finite (percent (total event) (loaded event)))"

text \<open>
  The \<^verbatim>\<open>progress\<close> listener: the values \<^verbatim>\<open>onProgress\<close> is called with, in order.
  \<open>given\<close> says whether the optional callback was supplied.
\<close>

definition onProgress_calls :: "bool \<Rightarrow> ProgressEvent list \<Rightarrow> percentage list" where
  "onProgress_calls given events =
     map progress_value (filter (\<lambda>event. lengthComputable event \<and> given) events)"

text \<open>How the returned promise settles: \<open>reject m\<close> rejects with \<^verbatim>\<open>new Error(m)\<close>.\<close>

datatype 'n settled = resolve "'n json" | reject string

definition http_reason :: "XMLHttpRequest \<Rightarrow> string" where
  "http_reason xhr = ''HTTP '' @ decimal (status xhr) @ '': '' @ statusText xhr"

text \<open>
  The \<^verbatim>\<open>load\<close> listener. In the failure branch everything up to the first
  \<^verbatim>\<open>reject\<close> sits in one \<^verbatim>\<open>try\<close>: a body that does not parse, a \<open>null\<close> body
  (reading \<^verbatim>\<open>.detail\<close> throws) and a detail that cannot be converted to a string all
  end in the \<^verbatim>\<open>catch\<close>.
\<close>

definition onload :: "'n platform \<Rightarrow> XMLHttpRequest \<Rightarrow> 'n settled" where
  "onload P xhr =
     (if 200 \<le> status xhr \<and> status xhr < 300 then
        (case JSON_parse P (responseText xhr) of
           Inr response \<Rightarrow> resolve response
         | Inl m \<Rightarrow> reject (''Invalid response format: '' @ Error_toString ''SyntaxError'' m))
      else
        (case JSON_parse P (responseText xhr) of
           Inl m \<Rightarrow> reject (http_reason xhr)
         | Inr errorResponse \<Rightarrow>
             (case Get errorResponse ''detail'' of
                Inl e \<Rightarrow> reject (http_reason xhr)
              | Inr detail \<Rightarrow>
                  (if ToBoolean P detail then
                     (case ToString P (the detail) of
                        Some m \<Rightarrow> reject m
                      | None \<Rightarrow> reject (http_reason xhr))
                   else reject ''Upload failed''))))"

definition translate_request :: "File \<Rightarrow> string \<Rightarrow> request" where
  "translate_request file targetLanguage =
     \<lparr>http_method = ''POST'', url = API_BASE_URL @ ''/translate-image'',
      form_file = file, form_target_language = targetLanguage, timeout = 60000\<rparr>"

text \<open>
  \<^verbatim>\<open>translateImage(file, targetLanguage, onProgress)\<close> against a transport that
  delivers \<open>net\<close>: the request sent, the calls of \<^verbatim>\<open>onProgress\<close>, and how the promise
  settles.
\<close>

definition translateImage ::
  "'n platform \<Rightarrow> File \<Rightarrow> string \<Rightarrow> bool \<Rightarrow> transport \<Rightarrow> request \<times> percentage list \<times> 'n settled" where
  "translateImage P file targetLanguage given net =
     (translate_request file targetLanguage,
      onProgress_calls given (progress_events net),
      (case completion net of
         load xhr \<Rightarrow> onload P xhr
       | error_event \<Rightarrow> reject ''Network error occurred''
       | timeout_event \<Rightarrow> reject ''Request timeout''))"

subsection \<open>\<^verbatim>\<open>getLanguages\<close>\<close>

text \<open>
  What \<^verbatim>\<open>fetch\<close> gives: a rejection (network failure), or a response with a status
  and a body. \<^verbatim>\<open>response.ok\<close> is a status in 200..299; \<^verbatim>\<open>response.json()\<close>
  parses the body as \<^verbatim>\<open>JSON.parse\<close> does.
\<close>

datatype fetched = fetch_failed | Response nat string

definition ok :: "nat \<Rightarrow> bool" where
  "ok st = (200 \<le> st \<and> st \<le> 299)"

text \<open>
  The result is the console output and what the promise settles to: \<open>Inl\<close> the value
  thrown (logged by the \<^verbatim>\<open>catch\<close> and thrown again), \<open>Inr\<close> the value returned,
  \<open>None\<close> for \<^verbatim>\<open>undefined\<close>. A failed \<^verbatim>\<open>fetch\<close> rejects with a
  \<^verbatim>\<open>TypeError\<close>.
\<close>

definition getLanguages_body :: "'n platform \<Rightarrow> fetched \<Rightarrow> exn + 'n json option" where
  "getLanguages_body P fetched =
     (case fetched of
        fetch_failed \<Rightarrow> Inl TypeError
      | Response st body \<Rightarrow>
          (if \<not> ok st then Inl (Error ''Failed to fetch languages'')
           else (case JSON_parse P body of
                   Inl m \<Rightarrow> Inl (SyntaxError m)
                 | Inr data \<Rightarrow> Get data ''languages'')))"

definition getLanguages :: "'n platform \<Rightarrow> fetched \<Rightarrow> string list \<times> (exn + 'n json option)" where
  "getLanguages P fetched =
     (case getLanguages_body P fetched of
        Inl err \<Rightarrow> ([''Error fetching languages:''], Inl err)
      | Inr languages \<Rightarrow> ([], Inr languages))"

section \<open>The \<^verbatim>\<open>ImageUploader\<close> component\<close>

subsection \<open>State and effects\<close>

text \<open>
  The \<^verbatim>\<open>useState\<close> cells of the component. \<open>result\<close> and \<open>error\<close> start as
  \<open>null\<close> (\<open>JNull\<close>, \<open>None\<close>); \<open>languages\<close> is whatever \<^verbatim>\<open>setLanguages\<close> was
  given, \<^verbatim>\<open>undefined\<close> included.
\<close>

record 'n ui_state =
  dragActive :: bool
  uploading :: bool
  uploadProgress :: percentage
  selectedLanguage :: string
  languages :: "'n json option"
  result :: "'n json"
  error :: "string option"
  copied :: bool

definition initial_state :: "'n ui_state" where
  "initial_state =
     \<lparr>dragActive = False, uploading = False, uploadProgress = Finite 0,
      selectedLanguage = ''en'', languages = Some (JObject []), result = JNull,
      error = None, copied = False\<rparr>"

text \<open>
  A handler is modelled by the effects it performs, in program order: the state setters
  it calls, the calls on the event, the request it sends, what it logs, what it writes to
  the clipboard and the timers it starts (\<open>setTimeout es ms\<close> runs \<open>es\<close> after \<open>ms\<close>
  milliseconds). The second argument of \<^verbatim>\<open>console.error\<close> is left out.
\<close>

datatype 'n effect =
    setDragActive bool
  | setUploading bool
  | setUploadProgress percentage
  | setLanguages "'n json option"
  | setResult "'n json"
  | setError "string option"
  | setCopied bool
  | preventDefault
  | stopPropagation
  | xhr_send request
  | console_error string
  | clipboard_writeText string
  | setTimeout "'n effect list" nat

fun setState :: "'n effect \<Rightarrow> 'n ui_state \<Rightarrow> 'n ui_state" where
  "setState (setDragActive b) s = s\<lparr>dragActive := b\<rparr>"
| "setState (setUploading b) s = s\<lparr>uploading := b\<rparr>"
| "setState (setUploadProgress p) s = s\<lparr>uploadProgress := p\<rparr>"
| "setState (setLanguages l) s = s\<lparr>languages := l\<rparr>"
| "setState (setResult r) s = s\<lparr>result := r\<rparr>"
| "setState (setError e) s = s\<lparr>error := e\<rparr>"
| "setState (setCopied b) s = s\<lparr>copied := b\<rparr>"
| "setState other s = s"

text \<open>The state after a handler's effects, and the requests among them.\<close>

definition render :: "'n effect list \<Rightarrow> 'n ui_state \<Rightarrow> 'n ui_state" where
  "render es s = fold setState es s"

fun requests_sent :: "'n effect list \<Rightarrow> request list" where
  "requests_sent [] = []"
| "requests_sent (xhr_send r # es) = r # requests_sent es"
| "requests_sent (e # es) = requests_sent es"



subsection \<open>Loading the catalog\<close>

definition fallback_languages :: "'n json" where
  "fallback_languages =
     JObject [(''en'', JString ''English''), (''es'', JString ''Spanish''),
              (''fr'', JString ''French''), (''de'', JString ''German''),
              (''zh'', JString ''Chinese''), (''ja'', JString ''Japanese'')]"

definition loadLanguages :: "'n platform \<Rightarrow> fetched \<Rightarrow> 'n effect list" where
  "loadLanguages P fetched =
     (case getLanguages P fetched of
        (logged, Inr langs) \<Rightarrow> map console_error logged @ [setLanguages langs]
      | (logged, Inl err) \<Rightarrow>
          map console_error logged
          @ [console_error ''Failed to load languages:'',
             setLanguages (Some fallback_languages)])"

text \<open>
  The language selector renders \<^verbatim>\<open>Object.entries(languages).map(...)\<close>, one item per
  entry. \<^verbatim>\<open>Object.entries\<close> lists the own properties of an object (for a parsed
  object, the listed pairs), the indexed elements of an array or string, nothing for a
  number or boolean, and throws a \<^verbatim>\<open>TypeError\<close> on \<open>null\<close> and \<^verbatim>\<open>undefined\<close>.
  The component has no error boundary: a throw here fails the render.
\<close>

fun Object_entries :: "'n json option \<Rightarrow> exn + (string \<times> 'n json) list" where
  "Object_entries None = Inl TypeError"
| "Object_entries (Some JNull) = Inl TypeError"
| "Object_entries (Some (JObject kvs)) = Inr kvs"
| "Object_entries (Some (JArray xs)) = Inr (zip (map decimal [0..<length xs]) xs)"
| "Object_entries (Some (JString str)) =
     Inr (zip (map decimal [0..<length str]) (map (\<lambda>c. JString [c]) str))"
| "Object_entries (Some v) = Inr []"

definition language_items :: "'n ui_state \<Rightarrow> exn + (string \<times> 'n json) list" where
  "language_items s = Object_entries (languages s)"

subsection \<open>Submitting a file\<close>

text \<open>
  \<^verbatim>\<open>handleFileUpload\<close>, closed over the selected language \<open>lang\<close>, against a transport that
  delivers \<open>net\<close> if a request is sent. Every rejection of \<^verbatim>\<open>translateImage\<close> is an
  \<^verbatim>\<open>Error\<close> object, so the \<^verbatim>\<open>catch\<close> shows its message.
\<close>

definition handleFileUpload ::
  "'n platform \<Rightarrow> string \<Rightarrow> File \<Rightarrow> transport \<Rightarrow> 'n effect list" where
  "handleFileUpload P lang file net =
     (if \<not> startsWith (type file) ''image/'' then
        [setError (Some ''Please select an image file'')]
      else
        [setUploading True, setUploadProgress (Finite 0), setError None, setResult JNull]
        @ (case translateImage P file lang True net of
             (req, progress, settled) \<Rightarrow>
               xhr_send req # map setUploadProgress progress
               @ (case settled of
                    resolve response \<Rightarrow> [setResult response]
                  | reject message \<Rightarrow> [setError (Some message)]))
        @ [setUploading False, setUploadProgress (Finite 0)])"



text \<open>
  A clipboard item: its declared type and what \<^verbatim>\<open>getAsFile()\<close> returns (\<open>None\<close>
  for \<open>null\<close>). \<^verbatim>\<open>handlePaste\<close> gets \<^verbatim>\<open>e.clipboardData?.items\<close>, \<open>None\<close> when
  that is missing.
\<close>

record DataTransferItem =
  item_type :: string
  getAsFile :: "File option"

fun handlePaste_loop ::
  "'n platform \<Rightarrow> string \<Rightarrow> DataTransferItem list \<Rightarrow> transport \<Rightarrow> 'n effect list" where
  "handlePaste_loop P lang [] net = []"
| "handlePaste_loop P lang (item # items) net =
     (if indexOf (item_type item) ''image'' \<noteq> - 1 then
        preventDefault
        # (case getAsFile item of
             Some file \<Rightarrow> handleFileUpload P lang file net
           | None \<Rightarrow> [])
      else handlePaste_loop P lang items net)"

definition handlePaste ::
  "'n platform \<Rightarrow> string \<Rightarrow> DataTransferItem list option \<Rightarrow> transport \<Rightarrow> 'n effect list" where
  "handlePaste P lang clipboard net =
     (case clipboard of
        None \<Rightarrow> []
      | Some items \<Rightarrow> handlePaste_loop P lang items net)"

text \<open>\<^verbatim>\<open>handleDrag\<close> on an event of the given type.\<close>

definition handleDrag :: "string \<Rightarrow> 'n effect list" where
  "handleDrag event_type =
     [preventDefault, stopPropagation]
     @ (if event_type = ''dragenter'' \<or> event_type = ''dragover'' then [setDragActive True]
        else if event_type = ''dragleave'' then [setDragActive False]
        else [])"

text \<open>\<^verbatim>\<open>handleDrop\<close> on the dropped \<^verbatim>\<open>e.dataTransfer.files\<close>.\<close>

definition handleDrop ::
  "'n platform \<Rightarrow> string \<Rightarrow> File list \<Rightarrow> transport \<Rightarrow> 'n effect list" where
  "handleDrop P lang files net =
     [preventDefault, stopPropagation, setDragActive False]
     @ (case files of
          [] \<Rightarrow> []
        | file # others \<Rightarrow>
            (if startsWith (type file) ''image/'' then
               handleFileUpload P lang file net
             else [setError (Some ''Please upload an image file'')]))"

text \<open>
  \<^verbatim>\<open>handleFileInputChange\<close> on \<^verbatim>\<open>e.target.files\<close> (\<open>None\<close> for \<open>null\<close>): the
  first file, if any.
\<close>

definition handleFileInputChange ::
  "'n platform \<Rightarrow> string \<Rightarrow> File list option \<Rightarrow> transport \<Rightarrow> 'n effect list" where
  "handleFileInputChange P lang files net =
     (case files of
        Some (file # others) \<Rightarrow> handleFileUpload P lang file net
      | _ \<Rightarrow> [])"

subsection \<open>Copying the translation\<close>

text \<open>
  \<^verbatim>\<open>handleCopyText\<close> on the current result \<open>res\<close>. \<open>writable\<close> says whether the
  clipboard accepts the write; a refused write, like a text that cannot be converted to
  a string, ends in the \<^verbatim>\<open>catch\<close>.
\<close>

definition handleCopyText :: "'n platform \<Rightarrow> 'n json \<Rightarrow> bool \<Rightarrow> 'n effect list" where
  "handleCopyText P res writable =
     (let translated_text =
            GetOptional (GetOptional (Some res) ''data'') ''translated_text''
      in if ToBoolean P translated_text then
           (case ToString P (the translated_text) of
              None \<Rightarrow> [console_error ''Failed to copy text:'']
            | Some text \<Rightarrow>
                clipboard_writeText text
                # (if writable then [setCopied True, setTimeout [setCopied False] 2000]
                   else [console_error ''Failed to copy text:'']))
         else [])"

section \<open>A platform for concrete runs\<close>

text \<open>
  Numbers inside parsed values are integers here, and \<open>JSON_parse\<close> knows
  the response bodies used in the examples below, each with the value
  \<^verbatim>\<open>JSON.parse\<close> builds for it. The examples call it on no other JSON text; the
  remaining texts they use are not JSON.
\<close>

definition sample_bodies :: "(string \<times> int json) list" where
  "sample_bodies =
     [(''{}'', JObject []),
      (''null'', JNull),
      (''42'', JNumber 42),
      (''{\"detail\":\"\"}'', JObject [(''detail'', JString [])]),
      (''{\"detail\":\"OCR engine unavailable\"}'',
         JObject [(''detail'', JString ''OCR engine unavailable'')]),
      (''{\"languages\":{\"en\":\"English\",\"vi\":\"Vietnamese\"}}'',
         JObject [(''languages'',
           JObject [(''en'', JString ''English''), (''vi'', JString ''Vietnamese'')])]),
      (''{\"success\":true,\"data\":{\"translated_text\":\"Hello\"}}'',
         JObject [(''success'', JBool True),
                  (''data'', JObject [(''translated_text'', JString ''Hello'')])])]"

definition sample_platform :: "int platform" where
  "sample_platform =
     \<lparr>JSON_parse = (\<lambda>s. case map_of sample_bodies s of
                            Some v \<Rightarrow> Inr v
                          | None \<Rightarrow> Inl ''Unexpected token''),
      Number_falsy = (\<lambda>n. n = 0),
      Number_toString = (\<lambda>n. (if n < 0 then ''-'' else []) @ decimal (nat \<bar>n\<bar>))\<rparr>"



section \<open>Properties of the service\<close>

lemma translateImage_load:
  "snd (snd (translateImage P file lang given \<lparr>progress_events = evs, completion = load xhr\<rparr>))
     = onload P xhr"
  by (simp add: translateImage_def)

lemma sample_parse_html:
  "JSON_parse sample_platform ''<html>Bad Gateway</html>'' = Inl ''Unexpected token''"
  by (simp add: sample_platform_def sample_bodies_def)

lemma sample_parse_hello:
  "JSON_parse sample_platform ''{\"success\":true,\"data\":{\"translated_text\":\"Hello\"}}''
     = Inr (JObject [(''success'', JBool True),
                     (''data'', JObject [(''translated_text'', JString ''Hello'')])])"
  by (simp add: sample_platform_def sample_bodies_def)

text \<open>
  Claim C3. When a submission completes with an HTTP status in \<open>[200,300)\<close>: if the
  body is not valid JSON, the operation fails and the message is
  \<^verbatim>\<open>Invalid response format: \<close> followed by the parse error as the runtime prints
  it; if the body is valid JSON, the operation succeeds with the parsed body.
\<close>

theorem C3_success_status_parsing:
  assumes "200 \<le> status xhr" and "status xhr < 300"
  shows "(JSON_parse P (responseText xhr) = Inl m \<longrightarrow>
            snd (snd (translateImage P file lang given
                        \<lparr>progress_events = evs, completion = load xhr\<rparr>))
              = reject (''Invalid response format: '' @ Error_toString ''SyntaxError'' m))
       \<and> (JSON_parse P (responseText xhr) = Inr v \<longrightarrow>
            snd (snd (translateImage P file lang given
                        \<lparr>progress_events = evs, completion = load xhr\<rparr>))
              = resolve v)"
  using assms by (simp add: translateImage_load onload_def)

theorem C3_success_status_parsing_witness:
  "snd (snd (translateImage sample_platform \<lparr>name = ''a.png'', type = ''image/png''\<rparr> ''en'' True
               \<lparr>progress_events = [],
                completion = load \<lparr>status = 200, statusText = ''OK'',
                                   responseText = ''<html>Bad Gateway</html>''\<rparr>\<rparr>))
     = reject ''Invalid response format: SyntaxError: Unexpected token''
   \<and> snd (snd (translateImage sample_platform \<lparr>name = ''a.png'', type = ''image/png''\<rparr> ''en'' True
               \<lparr>progress_events = [],
                completion = load \<lparr>status = 200, statusText = ''OK'',
                  responseText = ''{\"success\":true,\"data\":{\"translated_text\":\"Hello\"}}''\<rparr>\<rparr>))
     = resolve (JObject [(''success'', JBool True),
                         (''data'', JObject [(''translated_text'', JString ''Hello'')])])"
proof -
  let ?bad = "\<lparr>status = 200, statusText = ''OK'', responseText = ''<html>Bad Gateway</html>''\<rparr>"
  let ?good = "\<lparr>status = 200, statusText = ''OK'',
      responseText = ''{\"success\":true,\"data\":{\"translated_text\":\"Hello\"}}''\<rparr>"
  let ?v = "JObject [(''success'', JBool True),
                     (''data'', JObject [(''translated_text'', JString ''Hello'')])] :: int json"
  have b: "JSON_parse sample_platform (responseText ?bad) = Inl ''Unexpected token''"
    by (simp add: sample_parse_html)
  have g: "JSON_parse sample_platform (responseText ?good) = Inr ?v"
    by (simp add: sample_parse_hello)
  have s: "200 \<le> status ?bad" "status ?bad < 300" "200 \<le> status ?good" "status ?good < 300"
    by simp_all
  from C3_success_status_parsing [OF s(1,2), of sample_platform "''Unexpected token''"] b
       C3_success_status_parsing [OF s(3,4), of sample_platform _ _ _ _ _ ?v] g
  show ?thesis by (simp add: Error_toString_def)
qed

lemma sample_parse_table:
  "JSON_parse sample_platform ''{}'' = Inr (JObject [])"
  "JSON_parse sample_platform ''null'' = Inr JNull"
  "JSON_parse sample_platform ''42'' = Inr (JNumber 42)"
  "JSON_parse sample_platform ''{\"detail\":\"\"}'' = Inr (JObject [(''detail'', JString [])])"
  "JSON_parse sample_platform ''{\"detail\":\"OCR engine unavailable\"}''
     = Inr (JObject [(''detail'', JString ''OCR engine unavailable'')])"
  by (simp_all add: sample_platform_def sample_bodies_def)

text \<open>
  Claim C10. The submission does not validate the shape of a success body: with an HTTP
  status in \<open>[200,300)\<close>, whatever value the body parses to (\<open>null\<close>, a number, an
  object without the expected fields) is what the operation resolves with, unchanged;
  and the operation fails exactly when parsing the body fails.
\<close>

theorem C10_no_shape_validation:
  assumes "200 \<le> status xhr" and "status xhr < 300"
  shows "(\<forall>v. JSON_parse P (responseText xhr) = Inr v \<longrightarrow>
            snd (snd (translateImage P file lang given
                        \<lparr>progress_events = evs, completion = load xhr\<rparr>)) = resolve v)
       \<and> ((\<exists>m. snd (snd (translateImage P file lang given
                        \<lparr>progress_events = evs, completion = load xhr\<rparr>)) = reject m)
            \<longleftrightarrow> (\<exists>e. JSON_parse P (responseText xhr) = Inl e))"
  using assms by (auto simp add: translateImage_load onload_def split: sum.splits)

theorem C10_no_shape_validation_witness:
  "snd (snd (translateImage sample_platform \<lparr>name = ''a.png'', type = ''image/png''\<rparr> ''en'' True
        \<lparr>progress_events = [],
         completion = load \<lparr>status = 200, statusText = ''OK'', responseText = ''null''\<rparr>\<rparr>))
     = resolve JNull
   \<and> snd (snd (translateImage sample_platform \<lparr>name = ''a.png'', type = ''image/png''\<rparr> ''en'' True
        \<lparr>progress_events = [],
         completion = load \<lparr>status = 201, statusText = ''Created'', responseText = ''42''\<rparr>\<rparr>))
     = resolve (JNumber 42)
   \<and> snd (snd (translateImage sample_platform \<lparr>name = ''a.png'', type = ''image/png''\<rparr> ''en'' True
        \<lparr>progress_events = [],
         completion = load \<lparr>status = 299, statusText = [], responseText = ''{}''\<rparr>\<rparr>))
     = resolve (JObject [])"
proof -
  let ?a = "\<lparr>status = 200, statusText = ''OK'', responseText = ''null''\<rparr>"
  let ?b = "\<lparr>status = 201, statusText = ''Created'', responseText = ''42''\<rparr>"
  let ?c = "\<lparr>status = 299, statusText = [], responseText = ''{}''\<rparr>"
  have s: "200 \<le> status ?a" "status ?a < 300" "200 \<le> status ?b" "status ?b < 300"
          "200 \<le> status ?c" "status ?c < 300"
    by simp_all
  from C10_no_shape_validation [OF s(1,2), of sample_platform]
       C10_no_shape_validation [OF s(3,4), of sample_platform]
       C10_no_shape_validation [OF s(5,6), of sample_platform]
  show ?thesis by (simp add: sample_parse_table)
qed

text \<open>
  Claim C2, as stated, says that every completed submission with a status outside
  \<open>[200,300)\<close> and a parseable body fails with the body's \<^verbatim>\<open>detail\<close> string. It does
  not: an HTTP 500 whose body is \<^verbatim>\<open>{"detail":""}\<close> carries the detail string
  \<open>''''\<close>, and the operation fails with \<^verbatim>\<open>Upload failed\<close>.
\<close>

theorem C2_empty_detail_counterexample:
  "JSON_parse sample_platform ''{\"detail\":\"\"}'' = Inr (JObject [(''detail'', JString [])])
   \<and> snd (snd (translateImage sample_platform \<lparr>name = ''a.png'', type = ''image/png''\<rparr> ''en'' True
        \<lparr>progress_events = [],
         completion = load \<lparr>status = 500, statusText = ''Internal Server Error'',
                            responseText = ''{\"detail\":\"\"}''\<rparr>\<rparr>))
     = reject ''Upload failed''"
  by (simp add: translateImage_load onload_def sample_parse_table)

text \<open>
  Claim C2, amended. When a submission completes with an HTTP status outside
  \<open>[200,300)\<close>, the operation fails, whatever the body is, and the reason is
  \<^item> \<^verbatim>\<open>HTTP <status>: <statusText>\<close> if the body is not parseable JSON;
  \<^item> the body's \<^verbatim>\<open>detail\<close> string if the body is a JSON object whose
    \<^verbatim>\<open>detail\<close> is a non-empty string;
  \<^item> \<^verbatim>\<open>Upload failed\<close> if the body is a JSON object without a \<^verbatim>\<open>detail\<close> or
    with an empty one.
  In particular HTTP 500 with body \<^verbatim>\<open>{"detail":"OCR engine unavailable"}\<close> fails with
  exactly \<^verbatim>\<open>OCR engine unavailable\<close> (the witness below).
\<close>

theorem C2_failure_reason:
  assumes "\<not> (200 \<le> status xhr \<and> status xhr < 300)"
  shows "(\<exists>reason. snd (snd (translateImage P file lang given
                        \<lparr>progress_events = evs, completion = load xhr\<rparr>))
              = reject reason)
       \<and> (JSON_parse P (responseText xhr) = Inl m \<longrightarrow>
            snd (snd (translateImage P file lang given
                        \<lparr>progress_events = evs, completion = load xhr\<rparr>))
              = reject (''HTTP '' @ decimal (status xhr) @ '': '' @ statusText xhr))
       \<and> (JSON_parse P (responseText xhr) = Inr (JObject kvs)
            \<and> map_of kvs ''detail'' = Some (JString d) \<and> d \<noteq> [] \<longrightarrow>
            snd (snd (translateImage P file lang given
                        \<lparr>progress_events = evs, completion = load xhr\<rparr>)) = reject d)
       \<and> (JSON_parse P (responseText xhr) = Inr (JObject kvs)
            \<and> (map_of kvs ''detail'' = None \<or> map_of kvs ''detail'' = Some (JString [])) \<longrightarrow>
            snd (snd (translateImage P file lang given
                        \<lparr>progress_events = evs, completion = load xhr\<rparr>))
              = reject ''Upload failed'')"
proof -
  have "\<exists>reason. onload P xhr = reject reason"
    using assms by (auto simp add: onload_def split: sum.splits option.splits)
  then show ?thesis
    using assms by (auto simp add: translateImage_load onload_def http_reason_def)
qed

theorem C2_failure_reason_witness:
  "snd (snd (translateImage sample_platform \<lparr>name = ''a.png'', type = ''image/png''\<rparr> ''en'' True
        \<lparr>progress_events = [],
         completion = load \<lparr>status = 500, statusText = ''Internal Server Error'',
                            responseText = ''{\"detail\":\"OCR engine unavailable\"}''\<rparr>\<rparr>))
     = reject ''OCR engine unavailable''
   \<and> snd (snd (translateImage sample_platform \<lparr>name = ''a.png'', type = ''image/png''\<rparr> ''en'' True
        \<lparr>progress_events = [],
         completion = load \<lparr>status = 502, statusText = ''Bad Gateway'',
                            responseText = ''<html>Bad Gateway</html>''\<rparr>\<rparr>))
     = reject ''HTTP 502: Bad Gateway''
   \<and> snd (snd (translateImage sample_platform \<lparr>name = ''a.png'', type = ''image/png''\<rparr> ''en'' True
        \<lparr>progress_events = [],
         completion = load \<lparr>status = 404, statusText = ''Not Found'',
                            responseText = ''{}''\<rparr>\<rparr>))
     = reject ''Upload failed''"
proof -
  let ?a = "\<lparr>status = 500, statusText = ''Internal Server Error'',
             responseText = ''{\"detail\":\"OCR engine unavailable\"}''\<rparr>"
  let ?b = "\<lparr>status = 502, statusText = ''Bad Gateway'',
             responseText = ''<html>Bad Gateway</html>''\<rparr>"
  let ?c = "\<lparr>status = 404, statusText = ''Not Found'', responseText = ''{}''\<rparr>"
  have s: "\<not> (200 \<le> status ?a \<and> status ?a < 300)" "\<not> (200 \<le> status ?b \<and> status ?b < 300)"
          "\<not> (200 \<le> status ?c \<and> status ?c < 300)"
    by simp_all
  have d: "decimal 502 = ''502''" by code_simp
  from C2_failure_reason [OF s(1), where P = sample_platform
         and kvs = "[(''detail'', JString ''OCR engine unavailable'')]"
         and d = "''OCR engine unavailable''"]
       C2_failure_reason [OF s(2), where P = sample_platform and m = "''Unexpected token''"]
       C2_failure_reason [OF s(3), where P = sample_platform and kvs = "[]"]
  show ?thesis by (simp add: sample_parse_table sample_parse_html d)
qed

lemma translateImage_progress:
  "fst (snd (translateImage P file lang given \<lparr>progress_events = evs, completion = fin\<rparr>))
     = onProgress_calls given evs"
  by (simp add: translateImage_def)

subsection \<open>Rounding to doubles is monotone\<close>

lemma round_half_even_floor: "\<lfloor>s\<rfloor> \<le> round_half_even s \<and> round_half_even s \<le> \<lfloor>s\<rfloor> + 1"
  by (simp add: round_half_even_def Let_def)

lemma round_half_even_of_int: "round_half_even (of_int k) = k"
  by (simp add: round_half_even_def)

lemma round_half_even_mono:
  assumes "s \<le> t"
  shows "round_half_even s \<le> round_half_even t"
proof (cases "\<lfloor>s\<rfloor> = \<lfloor>t\<rfloor>")
  case True
  with assms show ?thesis
    by (auto simp add: round_half_even_def Let_def)
next
  case False
  with assms have "\<lfloor>s\<rfloor> + 1 \<le> \<lfloor>t\<rfloor>"
    using floor_mono [of s t] by linarith
  with round_half_even_floor [of s] round_half_even_floor [of t] show ?thesis by linarith
qed

lemma round_half_even_ge: "of_int a \<le> s \<Longrightarrow> a \<le> round_half_even s"
  using round_half_even_mono [of "of_int a" s] by (simp add: round_half_even_of_int)

lemma round_half_even_le: "s \<le> of_int b \<Longrightarrow> round_half_even s \<le> b"
  using round_half_even_mono [of s "of_int b"] by (simp add: round_half_even_of_int)

lemma int_bitlen_bounds:
  assumes "0 < p"
  shows "(2::rat) powi (bitlen p - 1) \<le> of_int p" and "of_int p < (2::rat) powi bitlen p"
proof -
  from bitlen_bounds [OF assms]
  have a: "2 ^ nat (bitlen p - 1) \<le> p" and b: "p < 2 ^ nat (bitlen p)" by simp_all
  have pos: "1 \<le> bitlen p" using assms bitlen_eq_zero_iff [of p] bitlen_nonneg [of p] by linarith
  from a have "(of_int (2 ^ nat (bitlen p - 1)) :: rat) \<le> of_int p" by (simp only: of_int_le_iff)
  then show "(2::rat) powi (bitlen p - 1) \<le> of_int p"
    using pos by (simp add: power_int_def)
  from b have "(of_int p :: rat) < of_int (2 ^ nat (bitlen p))" by (simp only: of_int_less_iff)
  then show "of_int p < (2::rat) powi bitlen p"
    using pos by (simp add: power_int_def)
qed

lemma exponent_bounds:
  assumes "0 < x"
  shows "2 powi exponent x \<le> x" and "x < 2 powi (exponent x + 1)"
proof -
  obtain p q where pq: "quotient_of x = (p, q)" by (cases "quotient_of x")
  then have x: "x = of_int p / of_int q" by (rule quotient_of_div)
  from pq have q: "0 < q" by (rule quotient_of_denom_pos)
  with assms x have p: "0 < p" by (simp add: zero_less_divide_iff)
  let ?e = "bitlen p - bitlen q"
  note bp = int_bitlen_bounds [OF p] and bq = int_bitlen_bounds [OF q]
  have qr: "(0::rat) < of_int q" using q by simp
  have up: "x < 2 powi (?e + 1)"
  proof -
    have "x < 2 powi bitlen p / of_int q"
      unfolding x using bp(2) qr by (simp add: divide_strict_right_mono)
    also have "\<dots> \<le> 2 powi bitlen p / 2 powi (bitlen q - 1)"
      using bq(1) qr by (intro divide_left_mono) (simp_all add: zero_less_power_int mult_pos_pos)
    also have "\<dots> = 2 powi (?e + 1)"
      by (simp add: power_int_diff [symmetric] algebra_simps)
    finally show ?thesis .
  qed
  have lo: "2 powi (?e - 1) \<le> x"
  proof -
    have "2 powi (?e - 1) = 2 powi (bitlen p - 1) / (2::rat) powi bitlen q"
      by (simp add: power_int_diff [symmetric] algebra_simps)
    also have "\<dots> \<le> of_int p / 2 powi bitlen q"
      using bp(1) by (intro divide_right_mono) (simp_all add: zero_less_power_int less_imp_le)
    also have "\<dots> \<le> of_int p / of_int q"
      using bq(2) p qr by (intro divide_left_mono) (simp_all add: zero_less_power_int mult_pos_pos)
    finally show ?thesis unfolding x .
  qed
  show "2 powi exponent x \<le> x"
    using lo by (simp add: exponent_def pq Let_def)
  show "x < 2 powi (exponent x + 1)"
    using up by (auto simp add: exponent_def pq Let_def not_le)
qed

lemma exponent_mono:
  assumes "0 < x" and "x \<le> y"
  shows "exponent x \<le> exponent y"
proof (rule ccontr)
  assume "\<not> exponent x \<le> exponent y"
  then have "exponent y + 1 \<le> exponent x" by simp
  then have "(2::rat) powi (exponent y + 1) \<le> 2 powi exponent x"
    by (intro power_int_increasing) simp_all
  moreover have "2 powi exponent x \<le> x" using assms(1) by (rule exponent_bounds)
  moreover have "y < 2 powi (exponent y + 1)" using assms by (intro exponent_bounds) simp
  ultimately show False using assms(2) by linarith
qed

lemma binary64_pos:
  assumes "0 < x"
  shows "binary64 x = of_int (round_half_even (x / 2 powi (exponent x - 52))) * 2 powi (exponent x - 52)"
  using assms by (simp add: binary64_def Let_def)

lemma binary64_range:
  assumes "0 < x"
  shows "2 powi exponent x \<le> binary64 x" and "binary64 x \<le> 2 powi (exponent x + 1)"
proof -
  let ?e = "exponent x - 52"
  let ?s = "x / (2::rat) powi ?e"
  have pe: "(0::rat) < (2::rat) powi ?e" by (simp add: zero_less_power_int)
  have e1: "(2::rat) powi exponent x = 2 ^ 52 * (2::rat) powi ?e"
    using power_int_add [of "2::rat" 52 ?e] by simp
  have e2: "(2::rat) powi (exponent x + 1) = 2 ^ 53 * (2::rat) powi ?e"
    using power_int_add [of "2::rat" 53 ?e] by (simp add: add.commute)
  from exponent_bounds(1) [OF assms] e1 have "2 ^ 52 * (2::rat) powi ?e \<le> x" by simp
  then have "(2 ^ 52 :: rat) \<le> ?s" using pe by (simp add: pos_le_divide_eq)
  then have lo: "of_int (2 ^ 52) \<le> ?s" by simp
  from exponent_bounds(2) [OF assms] e2 have "x \<le> 2 ^ 53 * (2::rat) powi ?e" by simp
  then have "?s \<le> (2 ^ 53 :: rat)" using pe by (simp add: pos_divide_le_eq)
  then have hi: "?s \<le> of_int (2 ^ 53)" by simp
  from round_half_even_ge [OF lo] have "(of_int (2 ^ 52) :: rat) \<le> of_int (round_half_even ?s)"
    by (simp only: of_int_le_iff)
  then have "of_int (2 ^ 52) * (2::rat) powi ?e \<le> of_int (round_half_even ?s) * (2::rat) powi ?e"
    using pe by (intro mult_right_mono) simp_all
  then have "2 ^ 52 * (2::rat) powi ?e \<le> of_int (round_half_even ?s) * (2::rat) powi ?e" by simp
  then show "2 powi exponent x \<le> binary64 x"
    by (simp only: binary64_pos [OF assms] e1)
  from round_half_even_le [OF hi] have "(of_int (round_half_even ?s) :: rat) \<le> of_int (2 ^ 53)"
    by (simp only: of_int_le_iff)
  then have "of_int (round_half_even ?s) * (2::rat) powi ?e \<le> of_int (2 ^ 53) * (2::rat) powi ?e"
    using pe by (intro mult_right_mono) simp_all
  then have "of_int (round_half_even ?s) * (2::rat) powi ?e \<le> 2 ^ 53 * (2::rat) powi ?e" by simp
  then show "binary64 x \<le> 2 powi (exponent x + 1)"
    by (simp only: binary64_pos [OF assms] e2)
qed

lemma binary64_mono_pos:
  assumes "0 < x" and "x \<le> y"
  shows "binary64 x \<le> binary64 y"
proof (cases "exponent x = exponent y")
  case True
  have y: "0 < y" using assms by simp
  let ?e = "exponent y - 52"
  have pe: "(0::rat) < 2 powi ?e" by (simp add: zero_less_power_int)
  have "x / 2 powi ?e \<le> y / 2 powi ?e" using assms(2) pe by (simp add: divide_right_mono)
  then have "round_half_even (x / 2 powi ?e) \<le> round_half_even (y / 2 powi ?e)"
    by (rule round_half_even_mono)
  then have "(of_int (round_half_even (x / 2 powi ?e)) :: rat) * 2 powi ?e
               \<le> of_int (round_half_even (y / 2 powi ?e)) * 2 powi ?e"
    using pe by (intro mult_right_mono) simp_all
  then show ?thesis by (simp add: binary64_pos [OF assms(1)] binary64_pos [OF y] True)
next
  case False
  have y: "0 < y" using assms by simp
  from False exponent_mono [OF assms] have "exponent x + 1 \<le> exponent y" by simp
  then have "(2::rat) powi (exponent x + 1) \<le> 2 powi exponent y"
    by (intro power_int_increasing) simp_all
  with binary64_range(2) [OF assms(1)] binary64_range(1) [OF y] show ?thesis by linarith
qed

lemma binary64_zero: "binary64 0 = 0"
  by (simp add: binary64_def)

lemma binary64_mono:
  assumes "0 \<le> x" and "x \<le> y"
  shows "binary64 x \<le> binary64 y"
proof (cases "x = 0")
  case True
  show ?thesis
  proof (cases "y = 0")
    case True
    with \<open>x = 0\<close> show ?thesis by simp
  next
    case False
    with assms True have y: "0 < y" by simp
    have "(0::rat) < 2 powi exponent y" by (simp add: zero_less_power_int)
    with binary64_range(1) [OF y] have "0 \<le> binary64 y" by linarith
    then show ?thesis by (simp add: True binary64_zero)
  qed
next
  case False
  with assms have "0 < x" by simp
  then show ?thesis using assms(2) by (rule binary64_mono_pos)
qed

lemma binary64_one: "binary64 1 = 1" by code_simp
lemma binary64_hundred: "binary64 100 = 100" by code_simp


subsection \<open>The percentage\<close>

lemma binary64_count_pos:
  assumes "0 < T"
  shows "1 \<le> binary64 (of_nat T)"
proof -
  have "(1::rat) \<le> of_nat T" using assms by simp
  then have "binary64 1 \<le> binary64 (of_nat T)" by (intro binary64_mono) simp_all
  then show ?thesis by (simp add: binary64_one)
qed

lemma binary64_nonneg: "0 \<le> x \<Longrightarrow> 0 \<le> binary64 x"
  using binary64_mono [of 0 x] by (simp add: binary64_zero)

lemma percent_mono:
  assumes T: "0 < T" and le: "l \<le> l'"
  shows "percent T l \<le> percent T l'"
proof -
  have pos: "0 \<le> binary64 (of_nat T)" using binary64_count_pos [OF T] by simp
  have l0: "0 \<le> binary64 (of_nat l)" by (intro binary64_nonneg) simp
  have "(of_nat l :: rat) \<le> of_nat l'" using le by simp
  then have "binary64 (of_nat l) \<le> binary64 (of_nat l')" by (intro binary64_mono) simp_all
  then have q: "binary64 (of_nat l) / binary64 (of_nat T)
                  \<le> binary64 (of_nat l') / binary64 (of_nat T)"
    using pos by (rule divide_right_mono)
  have q0: "0 \<le> binary64 (of_nat l) / binary64 (of_nat T)" using l0 pos by simp
  from q0 q have f: "binary64 (binary64 (of_nat l) / binary64 (of_nat T))
                  \<le> binary64 (binary64 (of_nat l') / binary64 (of_nat T))"
    by (rule binary64_mono)
  have f0: "0 \<le> binary64 (binary64 (of_nat l) / binary64 (of_nat T))"
    using q0 by (rule binary64_nonneg)
  from f have h: "binary64 (binary64 (of_nat l) / binary64 (of_nat T)) * 100
               \<le> binary64 (binary64 (of_nat l') / binary64 (of_nat T)) * 100"
    by simp
  have h0: "0 \<le> binary64 (binary64 (of_nat l) / binary64 (of_nat T)) * 100" using f0 by simp
  from h0 h have "binary64 (binary64 (binary64 (of_nat l) / binary64 (of_nat T)) * 100)
               \<le> binary64 (binary64 (binary64 (of_nat l') / binary64 (of_nat T)) * 100)"
    by (rule binary64_mono)
  then show ?thesis
    unfolding percent_def Math_round_def by (intro floor_mono) simp
qed

lemma percent_bounds:
  assumes T: "0 < T" and le: "l \<le> T"
  shows "0 \<le> percent T l \<and> percent T l \<le> 100"
proof -
  let ?q = "binary64 (of_nat l) / binary64 (of_nat T)"
  have pos: "1 \<le> binary64 (of_nat T)" by (rule binary64_count_pos [OF T])
  have l0: "0 \<le> binary64 (of_nat l)" by (intro binary64_nonneg) simp
  have "(of_nat l :: rat) \<le> of_nat T" using le by simp
  then have lT: "binary64 (of_nat l) \<le> binary64 (of_nat T)" by (intro binary64_mono) simp_all
  have q0: "0 \<le> ?q" using l0 pos by simp
  have q1: "?q \<le> 1" using lT pos by simp
  have f0: "0 \<le> binary64 ?q" using q0 by (rule binary64_nonneg)
  have "binary64 ?q \<le> binary64 1" using q0 q1 by (rule binary64_mono)
  then have f1: "binary64 ?q \<le> 1" by (simp add: binary64_one)
  have h0: "0 \<le> binary64 ?q * 100" using f0 by simp
  then have r0: "0 \<le> binary64 (binary64 ?q * 100)" by (rule binary64_nonneg)
  have "binary64 ?q * 100 \<le> 100" using f1 by simp
  with h0 have "binary64 (binary64 ?q * 100) \<le> binary64 100" by (rule binary64_mono)
  then have r1: "binary64 (binary64 ?q * 100) \<le> 100" by (simp add: binary64_hundred)
  have "0 \<le> \<lfloor>binary64 (binary64 ?q * 100) + 1 / 2\<rfloor>" using r0 by simp
  moreover have "\<lfloor>binary64 (binary64 ?q * 100) + 1 / 2\<rfloor> \<le> 100"
    using r1 by (simp add: floor_le_iff)
  ultimately show ?thesis by (simp add: percent_def Math_round_def)
qed

lemma calls_computable:
  assumes "\<forall>e\<in>set events. lengthComputable e \<longrightarrow> 0 < total e"
  shows "onProgress_calls True events
           = map (\<lambda>e. Finite (percent (total e) (loaded e))) (filter lengthComputable events)"
  using assms by (induction events) (auto simp add: onProgress_calls_def progress_value_def)

lemma calls_uniform:
  assumes "\<forall>e\<in>set events. lengthComputable e \<and> total e = T \<and> loaded e \<le> T" and "0 < T"
  shows "onProgress_calls True events = map (\<lambda>e. Finite (percent T (loaded e))) events"
  using assms by (induction events) (simp_all add: onProgress_calls_def progress_value_def)

lemma sorted_percent:
  assumes "0 < T" and "sorted (map loaded events)"
  shows "sorted (map (\<lambda>e. percent T (loaded e)) events)"
  using assms(2)
  by (induction events) (auto intro: percent_mono [OF assms(1)])

text \<open>
  Claim C4. Every progress event with a computable length (and a positive total) makes
  one call of the callback, in order, with
  \<^verbatim>\<open>Math.round((loaded / total) * 100)\<close> computed in double arithmetic; events
  without a computable length make none. Consequently, for a submission whose events all
  report the same total \<open>T > 0\<close> and non-decreasing \<open>loaded\<close> values between \<open>0\<close> and
  \<open>T\<close>, there is one callback value per event, the values are non-decreasing, and every
  one lies in \<open>[0,100]\<close>.
\<close>

theorem C4_progress_rounded_monotone_bounded:
  "((\<forall>e\<in>set events. lengthComputable e \<longrightarrow> 0 < total e) \<longrightarrow>
      fst (snd (translateImage P f lang True
                  \<lparr>progress_events = events, completion = fin\<rparr>))
        = map (\<lambda>e. Finite (Math_round
                 (binary64 (binary64 (binary64 (of_nat (loaded e))
                                        / binary64 (of_nat (total e))) * 100))))
              (filter lengthComputable events))
   \<and> (0 < T \<and> (\<forall>e\<in>set events. lengthComputable e \<and> total e = T \<and> loaded e \<le> T)
        \<and> sorted (map loaded events) \<longrightarrow>
      fst (snd (translateImage P f lang True
                  \<lparr>progress_events = events, completion = fin\<rparr>))
        = map (\<lambda>e. Finite (Math_round
                 (binary64 (binary64 (binary64 (of_nat (loaded e))
                                        / binary64 (of_nat T)) * 100))))
              events
      \<and> sorted (map (\<lambda>e. Math_round
                 (binary64 (binary64 (binary64 (of_nat (loaded e))
                                        / binary64 (of_nat T)) * 100)))
                events)
      \<and> (\<forall>e\<in>set events.
            0 \<le> Math_round (binary64 (binary64 (binary64 (of_nat (loaded e))
                                                   / binary64 (of_nat T)) * 100))
            \<and> Math_round (binary64 (binary64 (binary64 (of_nat (loaded e))
                                                 / binary64 (of_nat T)) * 100)) \<le> 100))"
proof (intro conjI impI)
  assume "\<forall>e\<in>set events. lengthComputable e \<longrightarrow> 0 < total e"
  then show "fst (snd (translateImage P f lang True
                  \<lparr>progress_events = events, completion = fin\<rparr>))
        = map (\<lambda>e. Finite (Math_round
                 (binary64 (binary64 (binary64 (of_nat (loaded e))
                                        / binary64 (of_nat (total e))) * 100))))
              (filter lengthComputable events)"
    by (simp only: translateImage_progress calls_computable percent_def)
next
  assume h: "0 < T \<and> (\<forall>e\<in>set events. lengthComputable e \<and> total e = T \<and> loaded e \<le> T)
        \<and> sorted (map loaded events)"
  then have T: "0 < T"
    and ev: "\<forall>e\<in>set events. lengthComputable e \<and> total e = T \<and> loaded e \<le> T"
    and so: "sorted (map loaded events)"
    by blast+
  show "fst (snd (translateImage P f lang True
                  \<lparr>progress_events = events, completion = fin\<rparr>))
        = map (\<lambda>e. Finite (Math_round
                 (binary64 (binary64 (binary64 (of_nat (loaded e))
                                        / binary64 (of_nat T)) * 100))))
              events"
    by (simp only: translateImage_progress calls_uniform [OF ev T] percent_def)
  show "sorted (map (\<lambda>e. Math_round
                 (binary64 (binary64 (binary64 (of_nat (loaded e))
                                        / binary64 (of_nat T)) * 100)))
                events)"
    using sorted_percent [OF T so] by (simp only: percent_def)
  show "\<forall>e\<in>set events.
            0 \<le> Math_round (binary64 (binary64 (binary64 (of_nat (loaded e))
                                                   / binary64 (of_nat T)) * 100))
            \<and> Math_round (binary64 (binary64 (binary64 (of_nat (loaded e))
                                                 / binary64 (of_nat T)) * 100)) \<le> 100"
  proof
    fix e assume "e \<in> set events"
    with ev have "loaded e \<le> T" by simp
    from percent_bounds [OF T this]
    show "0 \<le> Math_round (binary64 (binary64 (binary64 (of_nat (loaded e))
                                                   / binary64 (of_nat T)) * 100))
            \<and> Math_round (binary64 (binary64 (binary64 (of_nat (loaded e))
                                                 / binary64 (of_nat T)) * 100)) \<le> 100"
      by (simp only: percent_def)
  qed
qed

lemma percent_of_40:
  "percent 40 0 = 0" "percent 40 10 = 25" "percent 40 23 = 57" "percent 40 40 = 100"
  by code_simp+

theorem C4_progress_rounded_monotone_bounded_witness:
  "fst (snd (translateImage sample_platform \<lparr>name = ''a.png'', type = ''image/png''\<rparr> ''en'' True
       \<lparr>progress_events = [\<lparr>lengthComputable = True, loaded = 0, total = 40\<rparr>,
                           \<lparr>lengthComputable = True, loaded = 10, total = 40\<rparr>,
                           \<lparr>lengthComputable = True, loaded = 23, total = 40\<rparr>,
                           \<lparr>lengthComputable = True, loaded = 23, total = 40\<rparr>,
                           \<lparr>lengthComputable = True, loaded = 40, total = 40\<rparr>],
        completion = timeout_event\<rparr>))
     = [Finite 0, Finite 25, Finite 57, Finite 57, Finite 100]
   \<and> fst (snd (translateImage sample_platform \<lparr>name = ''a.png'', type = ''image/png''\<rparr> ''en'' True
       \<lparr>progress_events = [\<lparr>lengthComputable = False, loaded = 5, total = 0\<rparr>,
                           \<lparr>lengthComputable = True, loaded = 10, total = 40\<rparr>],
        completion = timeout_event\<rparr>))
     = [Finite 25]"
proof -
  let ?es = "[\<lparr>lengthComputable = True, loaded = 0, total = 40\<rparr>,
              \<lparr>lengthComputable = True, loaded = 10, total = 40\<rparr>,
              \<lparr>lengthComputable = True, loaded = 23, total = 40\<rparr>,
              \<lparr>lengthComputable = True, loaded = 23, total = 40\<rparr>,
              \<lparr>lengthComputable = True, loaded = 40, total = 40\<rparr>]"
  let ?fs = "[\<lparr>lengthComputable = False, loaded = 5, total = 0\<rparr>,
              \<lparr>lengthComputable = True, loaded = 10, total = 40\<rparr>]"
  have h: "0 < (40::nat)
        \<and> (\<forall>e\<in>set ?es. lengthComputable e \<and> total e = 40 \<and> loaded e \<le> 40)
        \<and> sorted (map loaded ?es)"
    by simp
  have g: "\<forall>e\<in>set ?fs. lengthComputable e \<longrightarrow> 0 < total e" by simp
  note a = C4_progress_rounded_monotone_bounded
             [where P = sample_platform and T = 40 and events = ?es
                and f = "\<lparr>name = ''a.png'', type = ''image/png''\<rparr>" and lang = "''en''"
                and fin = timeout_event]
  note b = C4_progress_rounded_monotone_bounded
             [where P = sample_platform and T = 40 and events = ?fs
                and f = "\<lparr>name = ''a.png'', type = ''image/png''\<rparr>" and lang = "''en''"
                and fin = timeout_event]
  from a [THEN conjunct2, rule_format, OF h, THEN conjunct1]
  have "fst (snd (translateImage sample_platform \<lparr>name = ''a.png'', type = ''image/png''\<rparr>
                ''en'' True \<lparr>progress_events = ?es, completion = timeout_event\<rparr>))
             = map (\<lambda>e. Finite (percent 40 (loaded e))) ?es"
    by (simp only: percent_def)
  then have one: "fst (snd (translateImage sample_platform \<lparr>name = ''a.png'', type = ''image/png''\<rparr>
                ''en'' True \<lparr>progress_events = ?es, completion = timeout_event\<rparr>))
             = [Finite 0, Finite 25, Finite 57, Finite 57, Finite 100]"
    by (simp add: percent_of_40)
  from b [THEN conjunct1, THEN mp, OF g]
  have "fst (snd (translateImage sample_platform \<lparr>name = ''a.png'', type = ''image/png''\<rparr>
                ''en'' True \<lparr>progress_events = ?fs, completion = timeout_event\<rparr>))
             = map (\<lambda>e. Finite (percent (total e) (loaded e))) (filter lengthComputable ?fs)"
    by (simp only: percent_def)
  then have two: "fst (snd (translateImage sample_platform \<lparr>name = ''a.png'', type = ''image/png''\<rparr>
                ''en'' True \<lparr>progress_events = ?fs, completion = timeout_event\<rparr>))
             = [Finite 25]"
    by (simp add: percent_of_40)
  from one two show ?thesis by (rule conjI)
qed

section \<open>Properties of the component\<close>

lemma render_append: "render (es @ fs) s = render fs (render es s)"
  by (simp add: render_def)

lemma startsWith_iff: "startsWith s p \<longleftrightarrow> (\<exists>b. s = p @ b)"
proof
  assume "startsWith s p"
  then have "s = p @ drop (length p) s"
    unfolding startsWith_def by (metis append_take_drop_id)
  then show "\<exists>b. s = p @ b" ..
next
  assume "\<exists>b. s = p @ b"
  then show "startsWith s p" by (auto simp add: startsWith_def)
qed

lemma indexOf_from_contains:
  "indexOf_from i s p \<noteq> - 1 \<longleftrightarrow> (\<exists>a b. s = a @ p @ b)"
proof (induction s arbitrary: i)
  case Nil
  then show ?case by simp
next
  case (Cons c cs)
  show ?case
  proof (cases "startsWith (c # cs) p")
    case True
    then obtain b where "c # cs = [] @ p @ b" by (auto simp add: startsWith_iff)
    then have "\<exists>a b. c # cs = a @ p @ b" by blast
    with True show ?thesis by simp
  next
    case False
    have "(\<exists>a b. c # cs = a @ p @ b) \<longleftrightarrow> (\<exists>a b. cs = a @ p @ b)"
    proof
      assume "\<exists>a b. c # cs = a @ p @ b"
      then obtain a b where ab: "c # cs = a @ p @ b" by blast
      show "\<exists>a b. cs = a @ p @ b"
      proof (cases a)
        case Nil
        with ab have "startsWith (c # cs) p" by (auto simp add: startsWith_iff)
        with False show ?thesis by contradiction
      next
        case (Cons x a')
        with ab have "cs = a' @ p @ b" by simp
        then show ?thesis by blast
      qed
    next
      assume "\<exists>a b. cs = a @ p @ b"
      then obtain a b where "cs = a @ p @ b" by blast
      then have "c # cs = (c # a) @ p @ b" by simp
      then show "\<exists>a b. c # cs = a @ p @ b" by blast
    qed
    with False Cons.IH [of "Suc i"] show ?thesis by simp
  qed
qed

lemma handleFileUpload_rejected:
  "\<not> startsWith (type f) ''image/'' \<Longrightarrow>
     handleFileUpload P lang f net = [setError (Some ''Please select an image file'')]"
  by (simp add: handleFileUpload_def)

lemma handleFileUpload_image:
  "startsWith (type f) ''image/'' \<Longrightarrow>
     handleFileUpload P lang f net =
       [setUploading True, setUploadProgress (Finite 0), setError None, setResult JNull]
       @ xhr_send (translate_request f lang)
         # map setUploadProgress (onProgress_calls True (progress_events net))
       @ (case snd (snd (translateImage P f lang True net)) of
            resolve response \<Rightarrow> [setResult response]
          | reject message \<Rightarrow> [setError (Some message)])
       @ [setUploading False, setUploadProgress (Finite 0)]"
  by (simp add: handleFileUpload_def translateImage_def)

lemma requests_sent_append: "requests_sent (es @ fs) = requests_sent es @ requests_sent fs"
  by (induction es rule: requests_sent.induct) simp_all

lemma requests_sent_progress: "requests_sent (map setUploadProgress ps) = []"
  by (induction ps) simp_all



text \<open>
  Claim C1. A file whose media type does not start with \<^verbatim>\<open>image/\<close>, chosen in the
  file picker or dropped, sends no request: the handler only shows a validation error,
  \<^verbatim>\<open>Please select an image file\<close> on the picker path and
  \<^verbatim>\<open>Please upload an image file\<close> on the drop path (after the drop event's own
  bookkeeping), and never reaches \<^verbatim>\<open>translateImage\<close>.
\<close>

theorem C1_non_image_rejected:
  assumes "\<not> startsWith (type f) ''image/''"
  shows "handleFileInputChange P lang (Some (f # fs)) net
           = [setError (Some ''Please select an image file'')]
       \<and> handleDrop P lang (f # fs) net
           = [preventDefault, stopPropagation, setDragActive False,
              setError (Some ''Please upload an image file'')]
       \<and> requests_sent (handleFileInputChange P lang (Some (f # fs)) net) = []
       \<and> requests_sent (handleDrop P lang (f # fs) net) = []
       \<and> error (render (handleFileInputChange P lang (Some (f # fs)) net) s)
           = Some ''Please select an image file''
       \<and> error (render (handleDrop P lang (f # fs) net) s)
           = Some ''Please upload an image file''"
  using assms
  by (simp add: handleFileInputChange_def handleDrop_def handleFileUpload_rejected render_def)

theorem C1_non_image_rejected_witness:
  "handleFileInputChange sample_platform ''en''
      (Some [\<lparr>name = ''notes.txt'', type = ''text/plain''\<rparr>])
      \<lparr>progress_events = [], completion = error_event\<rparr>
     = [setError (Some ''Please select an image file'')]
   \<and> requests_sent (handleDrop sample_platform ''en''
        [\<lparr>name = ''notes.txt'', type = ''text/plain''\<rparr>]
        \<lparr>progress_events = [], completion = error_event\<rparr>) = []"
proof -
  have h: "\<not> startsWith (type \<lparr>name = ''notes.txt'', type = ''text/plain''\<rparr>) ''image/''"
    by (simp add: startsWith_def)
  from C1_non_image_rejected [OF h, of sample_platform "''en''" "[]"
         "\<lparr>progress_events = [], completion = error_event\<rparr>"]
  show ?thesis by simp
qed

text \<open>
  Claim C8. A submission that passes validation sets the displayed progress to \<open>0\<close>
  as it starts and sets it to \<open>0\<close> again as its last step, whatever the transport
  delivers: success, an HTTP failure, a network error or a timeout.
\<close>

theorem C8_progress_reset:
  assumes "startsWith (type f) ''image/''"
  shows "(\<exists>mid. handleFileUpload P lang f net
                  = [setUploading True, setUploadProgress (Finite 0)] @ mid
                    @ [setUploading False, setUploadProgress (Finite 0)])
       \<and> uploadProgress (render (take 2 (handleFileUpload P lang f net)) s) = Finite 0
       \<and> uploadProgress (render (handleFileUpload P lang f net) s) = Finite 0"
proof (intro conjI)
  show "\<exists>mid. handleFileUpload P lang f net
                  = [setUploading True, setUploadProgress (Finite 0)] @ mid
                    @ [setUploading False, setUploadProgress (Finite 0)]"
    by (simp add: handleFileUpload_image [OF assms])
  show "uploadProgress (render (take 2 (handleFileUpload P lang f net)) s) = Finite 0"
    by (simp add: handleFileUpload_image [OF assms] render_def)
  show "uploadProgress (render (handleFileUpload P lang f net) s) = Finite 0"
    by (simp add: handleFileUpload_image [OF assms] render_append)
       (simp add: render_def)
qed

theorem C8_progress_reset_witness:
  "uploadProgress (render (handleFileUpload sample_platform ''en''
       \<lparr>name = ''a.png'', type = ''image/png''\<rparr>
       \<lparr>progress_events = [\<lparr>lengthComputable = True, loaded = 40, total = 40\<rparr>],
        completion = load \<lparr>status = 200, statusText = ''OK'', responseText = ''{}''\<rparr>\<rparr>)
     initial_state) = Finite 0
   \<and> uploadProgress (render (handleFileUpload sample_platform ''en''
       \<lparr>name = ''a.png'', type = ''image/png''\<rparr>
       \<lparr>progress_events = [\<lparr>lengthComputable = True, loaded = 10, total = 40\<rparr>],
        completion = timeout_event\<rparr>)
     initial_state) = Finite 0"
proof -
  have h: "startsWith (type \<lparr>name = ''a.png'', type = ''image/png''\<rparr>) ''image/''"
    by (simp add: startsWith_def)
  from C8_progress_reset [OF h, of sample_platform "''en''"
         "\<lparr>progress_events = [\<lparr>lengthComputable = True, loaded = 40, total = 40\<rparr>],
           completion = load \<lparr>status = 200, statusText = ''OK'', responseText = ''{}''\<rparr>\<rparr>"
         initial_state]
       C8_progress_reset [OF h, of sample_platform "''en''"
         "\<lparr>progress_events = [\<lparr>lengthComputable = True, loaded = 10, total = 40\<rparr>],
           completion = timeout_event\<rparr>"
         initial_state]
  show ?thesis by simp
qed

lemma translateImage_request:
  "fst (translateImage P f lang given net) = translate_request f lang"
  by (simp add: translateImage_def)

lemma handlePaste_loop_find:
  "handlePaste_loop P lang items net =
     (case find (\<lambda>item. indexOf (item_type item) ''image'' \<noteq> - 1) items of
        None \<Rightarrow> []
      | Some item \<Rightarrow>
          preventDefault
          # (case getAsFile item of
               None \<Rightarrow> []
             | Some f \<Rightarrow> handleFileUpload P lang f net))"
  by (induction items) (simp_all split: option.splits)

lemma requests_sent_handleFileUpload:
  "requests_sent (handleFileUpload P lang f net)
     = (if startsWith (type f) ''image/'' then [translate_request f lang] else [])"
proof (cases "startsWith (type f) ''image/''")
  case True
  then show ?thesis
    by (simp add: handleFileUpload_image requests_sent_append requests_sent_progress
             split: settled.split)
next
  case False
  then show ?thesis by (simp add: handleFileUpload_rejected)
qed

text \<open>
  Claim C6, as stated, says that a pasted item whose type contains \<^verbatim>\<open>image\<close> goes
  to the network with no media-type check. It does not: the paste handler forwards to
  \<^verbatim>\<open>handleFileUpload\<close>, which checks the file's type. A pasted disk image
  (\<^verbatim>\<open>application/x-apple-diskimage\<close>) is intercepted, fails that check, and no
  request is sent.
\<close>

theorem C6_paste_checked_counterexample:
  "handlePaste sample_platform ''en''
     (Some [\<lparr>item_type = ''text/plain'', getAsFile = None\<rparr>,
            \<lparr>item_type = ''application/x-apple-diskimage'',
             getAsFile = Some \<lparr>name = ''backup.dmg'',
                               type = ''application/x-apple-diskimage''\<rparr>\<rparr>])
     \<lparr>progress_events = [], completion = error_event\<rparr>
     = [preventDefault, setError (Some ''Please select an image file'')]"
  by (simp add: handlePaste_def handleFileUpload_def indexOf_def startsWith_def)

text \<open>
  Claim C6, amended. A paste event without clipboard items does nothing. Otherwise the
  items are scanned in order for the first whose declared type contains
  \<^verbatim>\<open>image\<close>. If there is none, the event is not intercepted. If there is one, the
  default paste behaviour is suppressed, the item is extracted, and, when the extraction
  yields a file, that file goes to \<^verbatim>\<open>handleFileUpload\<close> with no check in the paste
  handler itself. \<^verbatim>\<open>handleFileUpload\<close> then applies its own check: exactly one
  request is sent if the file's type starts with \<^verbatim>\<open>image/\<close>, and otherwise none is
  sent and \<^verbatim>\<open>Please select an image file\<close> is shown. \<^verbatim>\<open>translateImage\<close> sends
  the file it is given without looking at its type.
\<close>

theorem C6_paste_scan:
  "handlePaste P lang None net = []
   \<and> handlePaste P lang (Some items) net =
       (case find (\<lambda>item. indexOf (item_type item) ''image'' \<noteq> - 1) items of
          None \<Rightarrow> []
        | Some item \<Rightarrow>
            preventDefault
            # (case getAsFile item of
                 None \<Rightarrow> []
               | Some f \<Rightarrow> handleFileUpload P lang f net))
   \<and> (indexOf t ''image'' \<noteq> - 1 \<longleftrightarrow> (\<exists>a b. t = a @ ''image'' @ b))
   \<and> requests_sent (handleFileUpload P lang f net)
       = (if startsWith (type f) ''image/'' then [translate_request f lang] else [])
   \<and> (\<not> startsWith (type f) ''image/'' \<longrightarrow>
        handleFileUpload P lang f net = [setError (Some ''Please select an image file'')])
   \<and> fst (translateImage P f lang given net) = translate_request f lang"
  by (simp add: handlePaste_def handlePaste_loop_find indexOf_def indexOf_from_contains
        requests_sent_handleFileUpload handleFileUpload_rejected translateImage_request)

theorem C6_paste_scan_witness:
  "requests_sent (handlePaste sample_platform ''en''
     (Some [\<lparr>item_type = ''text/plain'', getAsFile = None\<rparr>,
            \<lparr>item_type = ''image/png'',
             getAsFile = Some \<lparr>name = ''image.png'', type = ''image/png''\<rparr>\<rparr>,
            \<lparr>item_type = ''image/jpeg'',
             getAsFile = Some \<lparr>name = ''image.jpg'', type = ''image/jpeg''\<rparr>\<rparr>])
     \<lparr>progress_events = [], completion = error_event\<rparr>)
     = [translate_request \<lparr>name = ''image.png'', type = ''image/png''\<rparr> ''en'']
   \<and> handlePaste sample_platform ''en''
        (Some [\<lparr>item_type = ''text/plain'', getAsFile = None\<rparr>])
        \<lparr>progress_events = [], completion = error_event\<rparr> = []
   \<and> handleFileUpload sample_platform ''en''
        \<lparr>name = ''backup.dmg'', type = ''application/x-apple-diskimage''\<rparr>
        \<lparr>progress_events = [], completion = error_event\<rparr>
       = [setError (Some ''Please select an image file'')]"
proof -
  let ?net = "\<lparr>progress_events = [], completion = error_event\<rparr>"
  let ?png = "\<lparr>name = ''image.png'', type = ''image/png''\<rparr>"
  let ?dmg = "\<lparr>name = ''backup.dmg'', type = ''application/x-apple-diskimage''\<rparr>"
  have i: "indexOf ''text/plain'' ''image'' = - 1" "indexOf ''image/png'' ''image'' = 0"
    by (simp_all add: indexOf_def startsWith_def)
  have s: "startsWith (type ?png) ''image/''" "\<not> startsWith (type ?dmg) ''image/''"
    by (simp_all add: startsWith_def)
  note a = C6_paste_scan [where P = sample_platform and lang = "''en''" and net = ?net and f = ?png
         and items = "[\<lparr>item_type = ''text/plain'', getAsFile = None\<rparr>,
            \<lparr>item_type = ''image/png'', getAsFile = Some ?png\<rparr>,
            \<lparr>item_type = ''image/jpeg'',
             getAsFile = Some \<lparr>name = ''image.jpg'', type = ''image/jpeg''\<rparr>\<rparr>]"]
  note b = C6_paste_scan [where P = sample_platform and lang = "''en''" and net = ?net and f = ?dmg
         and items = "[\<lparr>item_type = ''text/plain'', getAsFile = None\<rparr>]"]
  from a [THEN conjunct2, THEN conjunct1]
       a [THEN conjunct2, THEN conjunct2, THEN conjunct2, THEN conjunct1]
       b [THEN conjunct2, THEN conjunct1]
       b [THEN conjunct2, THEN conjunct2, THEN conjunct2, THEN conjunct2, THEN conjunct1]
  show ?thesis using i s by simp
qed














lemma getLanguages_body_fails:
  assumes "fetched = fetch_failed
         \<or> (\<exists>st body. fetched = Response st body
               \<and> (\<not> ok st \<or> (\<exists>m. JSON_parse P body = Inl m) \<or> JSON_parse P body = Inr JNull))"
  shows "\<exists>e. getLanguages_body P fetched = Inl e"
  using assms by (auto simp add: getLanguages_body_def)

lemma loadLanguages_failure_fallback:
  assumes "fetched = fetch_failed
         \<or> (\<exists>st body. fetched = Response st body
               \<and> (\<not> ok st \<or> (\<exists>m. JSON_parse P body = Inl m) \<or> JSON_parse P body = Inr JNull))"
  shows "\<exists>e. getLanguages P fetched = ([''Error fetching languages:''], Inl e)"
    and "loadLanguages P fetched
           = [console_error ''Error fetching languages:'',
              console_error ''Failed to load languages:'',
              setLanguages (Some (JObject
                [(''en'', JString ''English''), (''es'', JString ''Spanish''),
                 (''fr'', JString ''French''), (''de'', JString ''German''),
                 (''zh'', JString ''Chinese''), (''ja'', JString ''Japanese'')]))]"
    and "error (render (loadLanguages P fetched) s) = error s"
    and "selectedLanguage (render (loadLanguages P fetched) initial_state) = ''en''"
proof -
  from getLanguages_body_fails [OF assms]
  obtain e where e: "getLanguages_body P fetched = Inl e" ..
  then show "\<exists>e. getLanguages P fetched = ([''Error fetching languages:''], Inl e)"
    by (simp add: getLanguages_def)
  from e show l: "loadLanguages P fetched
           = [console_error ''Error fetching languages:'',
              console_error ''Failed to load languages:'',
              setLanguages (Some (JObject
                [(''en'', JString ''English''), (''es'', JString ''Spanish''),
                 (''fr'', JString ''French''), (''de'', JString ''German''),
                 (''zh'', JString ''Chinese''), (''ja'', JString ''Japanese'')]))]"
    by (simp add: loadLanguages_def getLanguages_def fallback_languages_def)
  show "error (render (loadLanguages P fetched) s) = error s"
    by (simp add: l render_def)
  show "selectedLanguage (render (loadLanguages P fetched) initial_state) = ''en''"
    by (simp add: l render_def initial_state_def)
qed

lemma loadLanguages_unvalidated:
  assumes "ok st" and "JSON_parse P body = Inr (JObject kvs)"
  shows "getLanguages P (Response st body) = ([], Inr (map_of kvs ''languages''))"
    and "loadLanguages P (Response st body) = [setLanguages (map_of kvs ''languages'')]"
  using assms by (simp_all add: loadLanguages_def getLanguages_def getLanguages_body_def)

lemma loadLanguages_catalog_example:
  "loadLanguages sample_platform
     (Response 200 ''{\"languages\":{\"en\":\"English\",\"vi\":\"Vietnamese\"}}'')
     = [setLanguages (Some (JObject [(''en'', JString ''English''),
                                     (''vi'', JString ''Vietnamese'')]))]"
  "language_items
     (render (loadLanguages sample_platform
                (Response 200 ''{\"languages\":{\"en\":\"English\",\"vi\":\"Vietnamese\"}}''))
        initial_state)
     = Inr [(''en'', JString ''English''), (''vi'', JString ''Vietnamese'')]"
  by (simp_all add: loadLanguages_def getLanguages_def getLanguages_body_def ok_def
        sample_platform_def sample_bodies_def render_def language_items_def)

text \<open>
  Claim C7 requires that the catalog fetch fails on every failure, a malformed response
  body included, that it never returns an undefined catalog, and that the caller then
  substitutes the six-entry catalog. On a network error, a status outside 200..299 and
  a body that does not parse the code does so (\<open>loadLanguages_failure_fallback\<close>). It
  misses one case: a 200 response whose body is the JSON object \<^verbatim>\<open>{}\<close>, without a
  \<^verbatim>\<open>languages\<close> member. There \<^verbatim>\<open>getLanguages\<close> returns \<^verbatim>\<open>undefined\<close> and
  logs nothing, \<^verbatim>\<open>loadLanguages\<close> stores it as the catalog instead of the fallback,
  and rendering the language selector throws in \<^verbatim>\<open>Object.entries\<close>.
\<close>

theorem C7_missing_languages_not_a_failure:
  "getLanguages sample_platform (Response 200 ''{}'') = ([], Inr None)
   \<and> loadLanguages sample_platform (Response 200 ''{}'') = [setLanguages None]
   \<and> languages (render (loadLanguages sample_platform (Response 200 ''{}'')) initial_state)
       = None
   \<and> language_items
        (render (loadLanguages sample_platform (Response 200 ''{}'')) initial_state)
       = Inl TypeError"
  by (simp add: loadLanguages_def getLanguages_def getLanguages_body_def ok_def
        sample_parse_table render_def language_items_def)

text \<open>
  Claim C9. With a result whose \<^verbatim>\<open>data.translated_text\<close> is a non-empty string,
  the copy action asks the clipboard to write exactly that string; when the clipboard
  accepts the write, it then sets the \<^verbatim>\<open>copied\<close> indicator and starts a timer of
  exactly 2000 ms that resets it. (A refused write is logged and sets nothing.)
\<close>

theorem C9_copy_action:
  assumes "result s = JObject kvs"
    and "map_of kvs ''data'' = Some (JObject dkvs)"
    and "map_of dkvs ''translated_text'' = Some (JString t)"
    and "t \<noteq> []"
  shows "handleCopyText P (result s) writable
           = clipboard_writeText t
             # (if writable then [setCopied True, setTimeout [setCopied False] 2000]
                else [console_error ''Failed to copy text:''])
       \<and> (writable \<longrightarrow> copied (render (handleCopyText P (result s) writable) s) = True)"
  using assms by (simp add: handleCopyText_def render_def)

theorem C9_copy_action_witness:
  "handleCopyText sample_platform
     (JObject [(''success'', JBool True),
               (''data'', JObject [(''translated_text'', JString ''Hello'')])]) True
   = [clipboard_writeText ''Hello'', setCopied True, setTimeout [setCopied False] 2000]"
proof -
  let ?r = "JObject [(''success'', JBool True),
               (''data'', JObject [(''translated_text'', JString ''Hello'')])] :: int json"
  let ?s = "initial_state\<lparr>result := ?r\<rparr> :: int ui_state"
  have h: "result ?s = JObject [(''success'', JBool True),
               (''data'', JObject [(''translated_text'', JString ''Hello'')])]"
    "map_of [(''success'', JBool True),
               (''data'', JObject [(''translated_text'', JString ''Hello'')])] ''data''
       = Some (JObject [(''translated_text'', JString ''Hello'' :: int json)])"
    "map_of [(''translated_text'', JString ''Hello'' :: int json)] ''translated_text''
       = Some (JString ''Hello'')"
    "''Hello'' \<noteq> []"
    by simp_all
  from C9_copy_action [OF h, of sample_platform True]
  show ?thesis by simp
qed

end
